theory Spec2Isabelle
  imports Main "HOL-Library.Sublist" "HOL-Library.AList" "HOL-Library.Multiset"
begin

section \<open>Strings\<close>

text \<open>
  JavaScript strings are modelled as \<open>string\<close>.  The three string operations
  the engine uses are \<open>String.prototype.startsWith\<close>, \<open>String.prototype.includes\<close>
  and \<open>replace(/\.js$/, '')\<close>; they are written as recursive functions, and related
  below to \<open>prefix\<close>, \<open>sublist\<close> and \<open>suffix\<close> of the list library.
\<close>

fun startsWith :: "string \<Rightarrow> string \<Rightarrow> bool" where
  "startsWith s [] = True"
| "startsWith [] (p # ps) = False"
| "startsWith (c # cs) (p # ps) = (c = p \<and> startsWith cs ps)"

fun includesStr :: "string \<Rightarrow> string \<Rightarrow> bool" where
  "includesStr [] sub = (sub = [])"
| "includesStr (c # cs) sub = (startsWith (c # cs) sub \<or> includesStr cs sub)"

definition endsWith :: "string \<Rightarrow> string \<Rightarrow> bool" where
  "endsWith s e = startsWith (rev s) (rev e)"

text \<open>\<open>fileName.replace(/\.js$/, '')\<close>: one trailing \<open>.js\<close> is cut off, if there is one.\<close>

definition stripJsExtension :: "string \<Rightarrow> string" where
  "stripJsExtension f = (if endsWith f ''.js'' then take (length f - 3) f else f)"

section \<open>The shared-chunk test\<close>

definition SHARED_CHUNK_NAME :: string where
  "SHARED_CHUNK_NAME = ''__shared__''"

definition isSharedChunkSource :: "string \<Rightarrow> string \<Rightarrow> bool" where
  "isSharedChunkSource source sharedChunkFileName =
     (includesStr source SHARED_CHUNK_NAME \<or>
      includesStr source (stripJsExtension sharedChunkFileName))"

section \<open>Syntax trees\<close>

text \<open>
  The engine reads source text only through the parser that the host hands it
  (\<open>ParseFn\<close>), walks the tree the parser returns, and edits the text at the positions
  of the nodes it visits.  The model works on those trees: a chunk's code is the tree
  of its text, and an edit of the text between the start and the end of a node is the
  replacement of that node by the tree of the new text.  The trees cover the node
  kinds the engine inspects and a small expression language around them.

  A member expression \<open>object.property\<close> (\<open>computed\<close> false, the property an
  \<open>Identifier\<close>) is \<open>MemberExpression\<close>; \<open>object[property]\<close> is
  \<open>ComputedMemberExpression\<close>.  \<open>Property key value\<close> stands for a property of an
  object literal and for a method of a class body; the key is an \<open>Identifier\<close> node.
  \<open>PIdentifier\<close> is an \<open>Identifier\<close> in pattern position.
\<close>

datatype import_spec =
    ImportSpecifier string string
  | ImportDefaultSpecifier string
  | ImportNamespaceSpecifier string

datatype export_spec = ExportSpecifier string string

datatype pattern =
    PIdentifier string
  | ObjectPattern "(string \<times> string) list"

datatype expr =
    Identifier string
  | Literal string
  | MemberExpression expr string
  | ComputedMemberExpression expr expr
  | CallExpression expr "expr list"
  | ObjectExpression "property list"
  | FunctionExpression "pattern list" "stmt list"
and property = Property string expr
and declarator = VariableDeclarator pattern "expr option"
and stmt =
    ExpressionStatement expr
  | ReturnStatement expr
  | VariableDeclaration "declarator list"
  | FunctionDeclaration string "pattern list" "stmt list"
  | ClassDeclaration string "property list"

text \<open>
  \<open>ImportSpecifier imported local\<close> is \<open>{ imported as local }\<close>;
  \<open>ExportSpecifier local exported\<close> is \<open>{ local as exported }\<close>.  The third
  argument of \<open>ExportNamedDeclaration\<close> and the second of \<open>ImportDeclaration\<close> is the
  source, the string after \<open>from\<close>.
\<close>

datatype item =
    ImportDeclaration "import_spec list" string
  | ExportNamedDeclaration "stmt option" "export_spec list" "string option"
  | ExportDefaultDeclaration expr
  | Statement stmt

type_synonym program = "item list"

text \<open>
  A JavaScript \<open>Set<string>\<close> is the list of its elements in insertion order, a
  \<open>Map<string, string>\<close> the association list of its entries in insertion order
  (\<open>get\<close> is \<open>map_of\<close>, \<open>set\<close> is \<open>AList.update\<close>, \<open>size === 0\<close> is \<open>= []\<close>).
\<close>

definition setAdd :: "string \<Rightarrow> string list \<Rightarrow> string list" where
  "setAdd x xs = (if x \<in> set xs then xs else xs @ [x])"

type_synonym rename_map = "(string \<times> string) list"

section \<open>The chunk merger\<close>

subsection \<open>Declared names and import bindings\<close>

fun specLocal :: "import_spec \<Rightarrow> string" where
  "specLocal (ImportSpecifier imported l) = l"
| "specLocal (ImportDefaultSpecifier l) = l"
| "specLocal (ImportNamespaceSpecifier l) = l"

fun declaratorId :: "declarator \<Rightarrow> string option" where
  "declaratorId (VariableDeclarator (PIdentifier n) ini) = Some n"
| "declaratorId (VariableDeclarator (ObjectPattern ps) ini) = None"

fun declaredByStmt :: "stmt \<Rightarrow> string list" where
  "declaredByStmt (VariableDeclaration ds) = List.map_filter declaratorId ds"
| "declaredByStmt (FunctionDeclaration n ps body) = [n]"
| "declaredByStmt (ClassDeclaration n ms) = [n]"
| "declaredByStmt (ExpressionStatement e) = []"
| "declaredByStmt (ReturnStatement e) = []"

fun declaredByItem :: "item \<Rightarrow> string list" where
  "declaredByItem (Statement s) = declaredByStmt s"
| "declaredByItem (ExportNamedDeclaration (Some d) specs src) = declaredByStmt d"
| "declaredByItem (ExportNamedDeclaration None specs src) = []"
| "declaredByItem (ImportDeclaration specs src) = []"
| "declaredByItem (ExportDefaultDeclaration e) = []"

definition extractTopLevelDeclarations :: "program \<Rightarrow> string list" where
  "extractTopLevelDeclarations ast =
     fold (\<lambda>node declarations. fold setAdd (declaredByItem node) declarations) ast []"

definition isExternalSource :: "string \<Rightarrow> bool" where
  "isExternalSource source = (\<not> startsWith source ''.'' \<and> \<not> startsWith source ''/'')"

fun externalBindingsOfItem :: "item \<Rightarrow> string list" where
  "externalBindingsOfItem (ImportDeclaration specs source) =
     (if isExternalSource source then map specLocal specs else [])"
| "externalBindingsOfItem (ExportNamedDeclaration d specs src) = []"
| "externalBindingsOfItem (ExportDefaultDeclaration e) = []"
| "externalBindingsOfItem (Statement s) = []"

definition extractExternalImportBindings :: "program \<Rightarrow> string list" where
  "extractExternalImportBindings ast =
     fold (\<lambda>node bindings. fold setAdd (externalBindingsOfItem node) bindings) ast []"

subsection \<open>Renaming identifiers\<close>

text \<open>
  \<open>const newName = renameMap.get(name); if (newName) ...\<close>: an entry counts when it
  is there and is not the empty string.
\<close>

definition lookupRename :: "rename_map \<Rightarrow> string \<Rightarrow> string option" where
  "lookupRename renameMap n =
     (case map_of renameMap n of
        None \<Rightarrow> None
      | Some new \<Rightarrow> if new = [] then None else Some new)"

definition renamed :: "rename_map \<Rightarrow> string \<Rightarrow> string" where
  "renamed renameMap n = (case lookupRename renameMap n of None \<Rightarrow> n | Some new \<Rightarrow> new)"


text \<open>
  The specifier that text is read as.  The walker is told to skip the specifier's
  children, so neither \<open>imported\<close> nor \<open>local\<close> is visited as an identifier.
\<close>

fun renameImportSpecifier :: "rename_map \<Rightarrow> import_spec \<Rightarrow> import_spec" where
  "renameImportSpecifier renameMap (ImportSpecifier imported l) =
     (case lookupRename renameMap l of
        None \<Rightarrow> ImportSpecifier imported l
      | Some new \<Rightarrow> ImportSpecifier imported new)"
| "renameImportSpecifier renameMap (ImportDefaultSpecifier l) =
     (case lookupRename renameMap l of
        None \<Rightarrow> ImportDefaultSpecifier l
      | Some new \<Rightarrow> ImportSpecifier ''default'' new)"
| "renameImportSpecifier renameMap (ImportNamespaceSpecifier l) =
     (case lookupRename renameMap l of
        None \<Rightarrow> ImportNamespaceSpecifier l
      | Some new \<Rightarrow> ImportNamespaceSpecifier new)"

primrec renamePattern :: "rename_map \<Rightarrow> pattern \<Rightarrow> pattern" where
  "renamePattern m (PIdentifier n) = PIdentifier (renamed m n)"
| "renamePattern m (ObjectPattern ps) =
     ObjectPattern (map (\<lambda>kv. (renamed m (fst kv), renamed m (snd kv))) ps)"

primrec renameExpr :: "rename_map \<Rightarrow> expr \<Rightarrow> expr"
  and renameProperty :: "rename_map \<Rightarrow> property \<Rightarrow> property"
  and renameDeclarator :: "rename_map \<Rightarrow> declarator \<Rightarrow> declarator"
  and renameStmt :: "rename_map \<Rightarrow> stmt \<Rightarrow> stmt" where
  "renameExpr m (Identifier n) = Identifier (renamed m n)"
| "renameExpr m (Literal v) = Literal v"
| "renameExpr m (MemberExpression ob p) = MemberExpression (renameExpr m ob) (renamed m p)"
| "renameExpr m (ComputedMemberExpression ob p) =
     ComputedMemberExpression (renameExpr m ob) (renameExpr m p)"
| "renameExpr m (CallExpression f args) =
     CallExpression (renameExpr m f) (map (renameExpr m) args)"
| "renameExpr m (ObjectExpression ps) = ObjectExpression (map (renameProperty m) ps)"
| "renameExpr m (FunctionExpression ps body) =
     FunctionExpression (map (renamePattern m) ps) (map (renameStmt m) body)"
| "renameProperty m (Property k v) = Property (renamed m k) (renameExpr m v)"
| "renameDeclarator m (VariableDeclarator p ini) =
     VariableDeclarator (renamePattern m p) (map_option (renameExpr m) ini)"
| "renameStmt m (ExpressionStatement e) = ExpressionStatement (renameExpr m e)"
| "renameStmt m (ReturnStatement e) = ReturnStatement (renameExpr m e)"
| "renameStmt m (VariableDeclaration ds) = VariableDeclaration (map (renameDeclarator m) ds)"
| "renameStmt m (FunctionDeclaration n ps body) =
     FunctionDeclaration (renamed m n) (map (renamePattern m) ps) (map (renameStmt m) body)"
| "renameStmt m (ClassDeclaration n ms) =
     ClassDeclaration (renamed m n) (map (renameProperty m) ms)"

fun renameExportSpecifier :: "rename_map \<Rightarrow> export_spec \<Rightarrow> export_spec" where
  "renameExportSpecifier m (ExportSpecifier l exported) =
     ExportSpecifier (renamed m l) (renamed m exported)"

fun renameItem :: "rename_map \<Rightarrow> item \<Rightarrow> item" where
  "renameItem m (ImportDeclaration specs source) =
     ImportDeclaration (map (renameImportSpecifier m) specs) source"
| "renameItem m (ExportNamedDeclaration d specs src) =
     ExportNamedDeclaration (map_option (renameStmt m) d) (map (renameExportSpecifier m) specs) src"
| "renameItem m (ExportDefaultDeclaration e) = ExportDefaultDeclaration (renameExpr m e)"
| "renameItem m (Statement s) = Statement (renameStmt m s)"

definition renameIdentifiers :: "program \<Rightarrow> rename_map \<Rightarrow> program" where
  "renameIdentifiers code renameMap =
     (if renameMap = [] then code else map (renameItem renameMap) code)"

subsection \<open>Exports\<close>

text \<open>An \<open>ExportMapping\<close> is the pair \<open>(exportedName, localName)\<close>.\<close>

type_synonym ExportMapping = "string \<times> string"

fun exportsOfItem :: "item \<Rightarrow> ExportMapping list" where
  "exportsOfItem (ExportNamedDeclaration d specs src) =
     (case d of None \<Rightarrow> [] | Some decl \<Rightarrow> map (\<lambda>n. (n, n)) (declaredByStmt decl))
     @ map (\<lambda>spec. case spec of ExportSpecifier l exported \<Rightarrow> (exported, l)) specs"
| "exportsOfItem (ImportDeclaration specs src) = []"
| "exportsOfItem (ExportDefaultDeclaration e) = []"
| "exportsOfItem (Statement s) = []"

fun isExportDefault :: "item \<Rightarrow> bool" where
  "isExportDefault (ExportDefaultDeclaration e) = True"
| "isExportDefault (ImportDeclaration specs src) = False"
| "isExportDefault (ExportNamedDeclaration d specs src) = False"
| "isExportDefault (Statement s) = False"

text \<open>\<open>extractExports\<close> returns \<open>{ exports, hasDefault }\<close>, here a pair.\<close>

definition extractExports :: "program \<Rightarrow> ExportMapping list \<times> bool" where
  "extractExports ast = (concat (map exportsOfItem ast), list_ex isExportDefault ast)"

fun stripItem :: "item \<Rightarrow> item list" where
  "stripItem (ExportNamedDeclaration (Some d) specs src) = [Statement d]"
| "stripItem (ExportNamedDeclaration None specs src) = []"
| "stripItem (ExportDefaultDeclaration e) =
     [Statement (VariableDeclaration
        [VariableDeclarator (PIdentifier ''__shared_default__'') (Some e)])]"
| "stripItem (ImportDeclaration specs src) = [ImportDeclaration specs src]"
| "stripItem (Statement s) = [Statement s]"

definition stripExports :: "program \<Rightarrow> program" where
  "stripExports ast = concat (map stripItem ast)"

subsection \<open>External imports and their deduplication\<close>

text \<open>
  An \<open>ExternalImport\<close> is the pair of the source and the specifiers of one import
  statement from a source that is not a relative path.  The specifier records
  \<open>{ type, localName, importedName }\<close> are the specifiers themselves: \<open>type\<close> is the
  constructor.  The positions \<open>start\<close> and \<open>end\<close> are the statement's place in
  the program.
\<close>

type_synonym ExternalImport = "string \<times> import_spec list"

fun externalImportOfItem :: "item \<Rightarrow> ExternalImport list" where
  "externalImportOfItem (ImportDeclaration specs source) =
     (if isExternalSource source then [(source, specs)] else [])"
| "externalImportOfItem (ExportNamedDeclaration d specs src) = []"
| "externalImportOfItem (ExportDefaultDeclaration e) = []"
| "externalImportOfItem (Statement s) = []"

definition extractExternalImports :: "program \<Rightarrow> ExternalImport list" where
  "extractExternalImports ast = concat (map externalImportOfItem ast)"

text \<open>
  The test in the innermost loop of \<open>removeOrRewriteDuplicateExternalImports\<close>: the
  same type and, for named specifiers, the same imported name.
\<close>

fun sameImportedSymbol :: "import_spec \<Rightarrow> import_spec \<Rightarrow> bool" where
  "sameImportedSymbol (ImportSpecifier imported l) (ImportSpecifier imported' l') =
     (imported = imported')"
| "sameImportedSymbol (ImportDefaultSpecifier l) (ImportDefaultSpecifier l') = True"
| "sameImportedSymbol (ImportNamespaceSpecifier l) (ImportNamespaceSpecifier l') = True"
| "sameImportedSymbol sharedSpec primarySpec = False"

text \<open>
  The two inner loops leave at the first match, going through the imports of the
  source in order and through the specifiers of each in order.
\<close>

definition findInPrimary :: "import_spec \<Rightarrow> ExternalImport list \<Rightarrow> import_spec option" where
  "findInPrimary sharedSpec primaryImpsForSource =
     find (sameImportedSymbol sharedSpec) (concat (map snd primaryImpsForSource))"

fun dedupSpecifiers ::
  "ExternalImport list \<Rightarrow> import_spec list \<Rightarrow> rename_map \<Rightarrow> import_spec list \<times> rename_map" where
  "dedupSpecifiers primaryImpsForSource [] renameMap = ([], renameMap)"
| "dedupSpecifiers primaryImpsForSource (sharedSpec # rest) renameMap =
     (case findInPrimary sharedSpec primaryImpsForSource of
        None \<Rightarrow>
          (case dedupSpecifiers primaryImpsForSource rest renameMap of
             (specifiersToKeep, renameMap') \<Rightarrow> (sharedSpec # specifiersToKeep, renameMap'))
      | Some primarySpec \<Rightarrow>
          dedupSpecifiers primaryImpsForSource rest
            (if specLocal sharedSpec \<noteq> specLocal primarySpec
             then AList.update (specLocal sharedSpec) (specLocal primarySpec) renameMap
             else renameMap))"

text \<open>
  The rebuilt import statement: a default specifier is put in front
  (\<open>parts.unshift\<close>), a namespace specifier at the end of \<open>parts\<close>, the named ones
  are collected and follow in braces.
\<close>

fun rebuildImport ::
  "import_spec list \<Rightarrow> import_spec list \<Rightarrow> import_spec list \<Rightarrow> import_spec list" where
  "rebuildImport [] parts namedParts = parts @ namedParts"
| "rebuildImport (ImportDefaultSpecifier l # rest) parts namedParts =
     rebuildImport rest (ImportDefaultSpecifier l # parts) namedParts"
| "rebuildImport (ImportNamespaceSpecifier l # rest) parts namedParts =
     rebuildImport rest (parts @ [ImportNamespaceSpecifier l]) namedParts"
| "rebuildImport (ImportSpecifier imported l # rest) parts namedParts =
     rebuildImport rest parts (namedParts @ [ImportSpecifier imported l])"

fun dedupItem :: "ExternalImport list \<Rightarrow> item \<Rightarrow> rename_map \<Rightarrow> item list \<times> rename_map" where
  "dedupItem primaryImports (ImportDeclaration specs source) renameMap =
     (if isExternalSource source then
        (let primaryImpsForSource = filter (\<lambda>imp. fst imp = source) primaryImports in
         if primaryImpsForSource = [] then ([ImportDeclaration specs source], renameMap)
         else
           (case dedupSpecifiers primaryImpsForSource specs renameMap of
              (specifiersToKeep, renameMap') \<Rightarrow>
                if specifiersToKeep = [] then ([], renameMap')
                else if length specifiersToKeep < length specs
                then ([ImportDeclaration (rebuildImport specifiersToKeep [] []) source], renameMap')
                else ([ImportDeclaration specs source], renameMap')))
      else ([ImportDeclaration specs source], renameMap))"
| "dedupItem primaryImports (ExportNamedDeclaration d specs src) renameMap =
     ([ExportNamedDeclaration d specs src], renameMap)"
| "dedupItem primaryImports (ExportDefaultDeclaration e) renameMap =
     ([ExportDefaultDeclaration e], renameMap)"
| "dedupItem primaryImports (Statement s) renameMap = ([Statement s], renameMap)"

fun dedupItems :: "ExternalImport list \<Rightarrow> program \<Rightarrow> rename_map \<Rightarrow> program \<times> rename_map" where
  "dedupItems primaryImports [] renameMap = ([], renameMap)"
| "dedupItems primaryImports (node # rest) renameMap =
     (case dedupItem primaryImports node renameMap of
        (nodes, renameMap') \<Rightarrow>
          (case dedupItems primaryImports rest renameMap' of
             (nodes', renameMap'') \<Rightarrow> (nodes @ nodes', renameMap'')))"

text \<open>
  The parameters keep the names they have in the source: \<open>sharedCode\<close> is the code
  that is edited and \<open>primaryImports\<close> the imports it is compared with.  The merger
  calls the function with the primary chunk's code and the shared chunk's imports.
\<close>

definition removeOrRewriteDuplicateExternalImports ::
  "program \<Rightarrow> ExternalImport list \<Rightarrow> program \<times> rename_map" where
  "removeOrRewriteDuplicateExternalImports sharedCode primaryImports =
     dedupItems primaryImports sharedCode []"

subsection \<open>Removing the imports of the shared chunk\<close>

text \<open>\<open>map.get(key) ?? fallback\<close>\<close>

definition getOr :: "rename_map \<Rightarrow> string \<Rightarrow> string \<Rightarrow> string" where
  "getOr m k fallback = (case map_of m k of None \<Rightarrow> fallback | Some v \<Rightarrow> v)"

text \<open>The first pass: the namespace names and the renames of the named imports.\<close>

fun collectSharedSpecifier ::
  "rename_map \<Rightarrow> import_spec \<Rightarrow> string list \<times> rename_map \<Rightarrow> string list \<times> rename_map" where
  "collectSharedSpecifier sharedExportToLocal (ImportNamespaceSpecifier l)
       (namespaceNames, namedImportRenames) = (setAdd l namespaceNames, namedImportRenames)"
| "collectSharedSpecifier sharedExportToLocal (ImportSpecifier imported l)
       (namespaceNames, namedImportRenames) =
     (let actualLocal = getOr sharedExportToLocal imported imported in
      if l \<noteq> actualLocal
      then (namespaceNames, AList.update l actualLocal namedImportRenames)
      else (namespaceNames, namedImportRenames))"
| "collectSharedSpecifier sharedExportToLocal (ImportDefaultSpecifier l)
       (namespaceNames, namedImportRenames) =
     (let actualLocal = getOr sharedExportToLocal ''default'' ''__shared_default__'' in
      if l \<noteq> actualLocal
      then (namespaceNames, AList.update l actualLocal namedImportRenames)
      else (namespaceNames, namedImportRenames))"

fun collectSharedImport ::
  "string \<Rightarrow> rename_map \<Rightarrow> item \<Rightarrow> string list \<times> rename_map \<Rightarrow> string list \<times> rename_map" where
  "collectSharedImport sharedChunkFileName sharedExportToLocal (ImportDeclaration specs source) acc =
     (if isSharedChunkSource source sharedChunkFileName
      then fold (collectSharedSpecifier sharedExportToLocal) specs acc else acc)"
| "collectSharedImport sharedChunkFileName sharedExportToLocal (ExportNamedDeclaration d specs src) acc = acc"
| "collectSharedImport sharedChunkFileName sharedExportToLocal (ExportDefaultDeclaration e) acc = acc"
| "collectSharedImport sharedChunkFileName sharedExportToLocal (Statement s) acc = acc"

text \<open>
  The second pass.  The three arguments \<open>ns\<close>, \<open>e2l\<close> and \<open>nir\<close> are
  \<open>namespaceNames\<close>, \<open>sharedExportToLocal\<close> and \<open>namedImportRenames\<close>.  An
  identifier is rewritten only when \<open>namedImportRenames.size > 0\<close>.
\<close>

definition rewriteName :: "rename_map \<Rightarrow> string \<Rightarrow> string" where
  "rewriteName nir n = (if nir = [] then n else renamed nir n)"

primrec rewritePattern :: "rename_map \<Rightarrow> pattern \<Rightarrow> pattern" where
  "rewritePattern nir (PIdentifier n) = PIdentifier (rewriteName nir n)"
| "rewritePattern nir (ObjectPattern ps) =
     ObjectPattern (map (\<lambda>kv. (rewriteName nir (fst kv), rewriteName nir (snd kv))) ps)"

primrec rewriteExpr :: "string list \<Rightarrow> rename_map \<Rightarrow> rename_map \<Rightarrow> expr \<Rightarrow> expr"
  and rewriteProperty :: "string list \<Rightarrow> rename_map \<Rightarrow> rename_map \<Rightarrow> property \<Rightarrow> property"
  and rewriteDeclarator :: "string list \<Rightarrow> rename_map \<Rightarrow> rename_map \<Rightarrow> declarator \<Rightarrow> declarator"
  and rewriteStmt :: "string list \<Rightarrow> rename_map \<Rightarrow> rename_map \<Rightarrow> stmt \<Rightarrow> stmt" where
  "rewriteExpr ns e2l nir (Identifier n) = Identifier (rewriteName nir n)"
| "rewriteExpr ns e2l nir (Literal v) = Literal v"
| "rewriteExpr ns e2l nir (MemberExpression ob p) =
     (case ob of
        Identifier n \<Rightarrow>
          if n \<noteq> [] \<and> n \<in> set ns \<and> p \<noteq> [] then Identifier (getOr e2l p p)
          else MemberExpression (rewriteExpr ns e2l nir ob) (rewriteName nir p)
      | _ \<Rightarrow> MemberExpression (rewriteExpr ns e2l nir ob) (rewriteName nir p))"
| "rewriteExpr ns e2l nir (ComputedMemberExpression ob p) =
     ComputedMemberExpression (rewriteExpr ns e2l nir ob) (rewriteExpr ns e2l nir p)"
| "rewriteExpr ns e2l nir (CallExpression f args) =
     CallExpression (rewriteExpr ns e2l nir f) (map (rewriteExpr ns e2l nir) args)"
| "rewriteExpr ns e2l nir (ObjectExpression ps) =
     ObjectExpression (map (rewriteProperty ns e2l nir) ps)"
| "rewriteExpr ns e2l nir (FunctionExpression ps body) =
     FunctionExpression (map (rewritePattern nir) ps) (map (rewriteStmt ns e2l nir) body)"
| "rewriteProperty ns e2l nir (Property k v) =
     Property (rewriteName nir k) (rewriteExpr ns e2l nir v)"
| "rewriteDeclarator ns e2l nir (VariableDeclarator p ini) =
     VariableDeclarator (rewritePattern nir p) (map_option (rewriteExpr ns e2l nir) ini)"
| "rewriteStmt ns e2l nir (ExpressionStatement e) = ExpressionStatement (rewriteExpr ns e2l nir e)"
| "rewriteStmt ns e2l nir (ReturnStatement e) = ReturnStatement (rewriteExpr ns e2l nir e)"
| "rewriteStmt ns e2l nir (VariableDeclaration ds) =
     VariableDeclaration (map (rewriteDeclarator ns e2l nir) ds)"
| "rewriteStmt ns e2l nir (FunctionDeclaration n ps body) =
     FunctionDeclaration (rewriteName nir n) (map (rewritePattern nir) ps)
       (map (rewriteStmt ns e2l nir) body)"
| "rewriteStmt ns e2l nir (ClassDeclaration n ms) =
     ClassDeclaration (rewriteName nir n) (map (rewriteProperty ns e2l nir) ms)"

text \<open>
  The specifiers of an import that stays are visited as plain identifiers, both
  \<open>imported\<close> and \<open>local\<close>; so are those of an export that is not a re-export from
  the shared chunk.
\<close>

fun rewriteImportSpecifier :: "rename_map \<Rightarrow> import_spec \<Rightarrow> import_spec" where
  "rewriteImportSpecifier nir (ImportSpecifier imported l) =
     ImportSpecifier (rewriteName nir imported) (rewriteName nir l)"
| "rewriteImportSpecifier nir (ImportDefaultSpecifier l) =
     ImportDefaultSpecifier (rewriteName nir l)"
| "rewriteImportSpecifier nir (ImportNamespaceSpecifier l) =
     ImportNamespaceSpecifier (rewriteName nir l)"

fun rewriteExportSpecifier :: "rename_map \<Rightarrow> export_spec \<Rightarrow> export_spec" where
  "rewriteExportSpecifier nir (ExportSpecifier l exported) =
     ExportSpecifier (rewriteName nir l) (rewriteName nir exported)"

text \<open>
  \<open>export { a as b } from shared\<close> becomes \<open>export { localOfA as b }\<close>: the \<open>local\<close>
  of a re-export specifier is the name imported from the source.
\<close>

fun reexportSpecifier :: "rename_map \<Rightarrow> export_spec \<Rightarrow> export_spec" where
  "reexportSpecifier e2l (ExportSpecifier importedName exportedName) =
     ExportSpecifier (getOr e2l importedName importedName) exportedName"

fun rewriteItem ::
  "string \<Rightarrow> string list \<Rightarrow> rename_map \<Rightarrow> rename_map \<Rightarrow> item \<Rightarrow> item list" where
  "rewriteItem sharedChunkFileName ns e2l nir (ImportDeclaration specs source) =
     (if isSharedChunkSource source sharedChunkFileName then []
      else [ImportDeclaration (map (rewriteImportSpecifier nir) specs) source])"
| "rewriteItem sharedChunkFileName ns e2l nir (ExportNamedDeclaration d specs src) =
     (case src of
        None \<Rightarrow>
          [ExportNamedDeclaration (map_option (rewriteStmt ns e2l nir) d)
             (map (rewriteExportSpecifier nir) specs) None]
      | Some source \<Rightarrow>
          if isSharedChunkSource source sharedChunkFileName
          then [ExportNamedDeclaration None (map (reexportSpecifier e2l) specs) None]
          else [ExportNamedDeclaration (map_option (rewriteStmt ns e2l nir) d)
                  (map (rewriteExportSpecifier nir) specs) (Some source)])"
| "rewriteItem sharedChunkFileName ns e2l nir (ExportDefaultDeclaration e) =
     [ExportDefaultDeclaration (rewriteExpr ns e2l nir e)]"
| "rewriteItem sharedChunkFileName ns e2l nir (Statement s) =
     [Statement (rewriteStmt ns e2l nir s)]"

definition removeSharedImportsAndRewriteRefs :: "program \<Rightarrow> string \<Rightarrow> rename_map \<Rightarrow> program" where
  "removeSharedImportsAndRewriteRefs code sharedChunkFileName sharedExportToLocal =
     (case fold (collectSharedImport sharedChunkFileName sharedExportToLocal) code ([], []) of
        (namespaceNames, namedImportRenames) \<Rightarrow>
          concat (map (rewriteItem sharedChunkFileName namespaceNames sharedExportToLocal
                         namedImportRenames) code))"

subsection \<open>The exports the satellites need\<close>

fun sharedImportedName :: "import_spec \<Rightarrow> string list" where
  "sharedImportedName (ImportSpecifier imported l) = [imported]"
| "sharedImportedName (ImportDefaultSpecifier l) = [''default'']"
| "sharedImportedName (ImportNamespaceSpecifier l) = []"

fun sharedImportsOfItem :: "string \<Rightarrow> item \<Rightarrow> string list" where
  "sharedImportsOfItem sharedChunkFileName (ImportDeclaration specs source) =
     (if isSharedChunkSource source sharedChunkFileName
      then concat (map sharedImportedName specs) else [])"
| "sharedImportsOfItem sharedChunkFileName (ExportNamedDeclaration d specs src) = []"
| "sharedImportsOfItem sharedChunkFileName (ExportDefaultDeclaration e) = []"
| "sharedImportsOfItem sharedChunkFileName (Statement s) = []"

definition extractSharedImports :: "program \<Rightarrow> string \<Rightarrow> string list" where
  "extractSharedImports code sharedChunkFileName =
     fold (\<lambda>node imports. fold setAdd (sharedImportsOfItem sharedChunkFileName node) imports)
       code []"

text \<open>The loop of \<open>generateBundle\<close> over the satellite chunks.\<close>

definition collectNeededExports :: "program list \<Rightarrow> string \<Rightarrow> string list" where
  "collectNeededExports satelliteCodes sharedChunkFileName =
     fold (\<lambda>satellite neededExports.
             fold setAdd (extractSharedImports satellite sharedChunkFileName) neededExports)
       satelliteCodes []"

subsection \<open>Merging the shared chunk into the primary chunk\<close>

text \<open>
  Of an \<open>OutputChunk\<close> the merger reads \<open>code\<close> and \<open>fileName\<close> and writes
  \<open>code\<close>: the chunks are passed as their code and file name, and the new code of
  the primary chunk is the result.
\<close>

text \<open>The two loops that fill \<open>collisionRenameMap\<close>.\<close>

definition buildCollisionRenameMap ::
  "string list \<Rightarrow> string list \<Rightarrow> string list \<Rightarrow> string list \<Rightarrow> rename_map" where
  "buildCollisionRenameMap sharedDeclarations sharedExternalBindings
       primaryDeclarations primaryExternalBindings =
     fold (\<lambda>n m.
             if (n \<in> set primaryDeclarations \<or> n \<in> set primaryExternalBindings)
                \<and> map_of m n = None
             then AList.update n (''__shared$'' @ n) m else m)
       sharedExternalBindings
       (fold (\<lambda>n m.
                if n \<in> set primaryDeclarations \<or> n \<in> set primaryExternalBindings
                then AList.update n (''__shared$'' @ n) m else m)
          sharedDeclarations [])"

definition primaryCodeDeduped :: "program \<Rightarrow> program \<Rightarrow> program" where
  "primaryCodeDeduped primaryCode sharedCode =
     fst (removeOrRewriteDuplicateExternalImports primaryCode (extractExternalImports sharedCode))"

definition externalRenameMap :: "program \<Rightarrow> program \<Rightarrow> rename_map" where
  "externalRenameMap primaryCode sharedCode =
     snd (removeOrRewriteDuplicateExternalImports primaryCode (extractExternalImports sharedCode))"

definition collisionRenameMap :: "program \<Rightarrow> program \<Rightarrow> rename_map" where
  "collisionRenameMap primaryCode sharedCode =
     buildCollisionRenameMap
       (extractTopLevelDeclarations sharedCode)
       (extractExternalImportBindings sharedCode)
       (extractTopLevelDeclarations (primaryCodeDeduped primaryCode sharedCode))
       (extractExternalImportBindings (primaryCodeDeduped primaryCode sharedCode))"

definition processedSharedCode :: "program \<Rightarrow> program \<Rightarrow> program" where
  "processedSharedCode primaryCode sharedCode =
     (if collisionRenameMap primaryCode sharedCode \<noteq> []
      then renameIdentifiers sharedCode (collisionRenameMap primaryCode sharedCode)
      else sharedCode)"

definition sharedExportToLocal :: "program \<Rightarrow> program \<Rightarrow> rename_map" where
  "sharedExportToLocal primaryCode sharedCode =
     (let m = fold (\<lambda>exp m. AList.update (fst exp)
                       (getOr (collisionRenameMap primaryCode sharedCode) (snd exp) (snd exp)) m)
                (fst (extractExports sharedCode)) []
      in if snd (extractExports sharedCode)
         then AList.update ''default'' ''__shared_default__'' m else m)"

definition primaryWithoutSharedImports :: "program \<Rightarrow> program \<Rightarrow> string \<Rightarrow> program" where
  "primaryWithoutSharedImports primaryCode sharedCode sharedChunkFileName =
     (let rewritten = removeSharedImportsAndRewriteRefs
                        (primaryCodeDeduped primaryCode sharedCode) sharedChunkFileName
                        (sharedExportToLocal primaryCode sharedCode)
      in if externalRenameMap primaryCode sharedCode \<noteq> []
         then renameIdentifiers rewritten (externalRenameMap primaryCode sharedCode)
         else rewritten)"

text \<open>
  The entries of the shared object, as properties: the entry \<open>exportedName: renamedLocal\<close>,
  or the shorthand \<open>renamedLocal\<close> when the two names are equal, is the property with
  key \<open>exportedName\<close> and value the identifier \<open>renamedLocal\<close>.
\<close>

definition sharedExportEntries ::
  "ExportMapping list \<Rightarrow> bool \<Rightarrow> rename_map \<Rightarrow> string list \<Rightarrow> property list" where
  "sharedExportEntries sharedExports hasDefault collisions neededExports =
     map (\<lambda>exp. Property (fst exp) (Identifier (getOr collisions (snd exp) (snd exp))))
       (filter (\<lambda>exp. fst exp \<in> set neededExports) sharedExports)
     @ (if hasDefault \<and> ''default'' \<in> set neededExports
        then [Property ''default'' (Identifier ''__shared_default__'')] else [])"

definition sharedObjectStatements :: "string \<Rightarrow> property list \<Rightarrow> program" where
  "sharedObjectStatements sharedProperty entries =
     (if entries \<noteq> []
      then [Statement (VariableDeclaration
              [VariableDeclarator (PIdentifier sharedProperty) (Some (ObjectExpression entries))]),
            ExportNamedDeclaration None [ExportSpecifier sharedProperty sharedProperty] None]
      else [])"

definition mergedSharedExportEntries :: "program \<Rightarrow> program \<Rightarrow> string list \<Rightarrow> property list" where
  "mergedSharedExportEntries primaryCode sharedCode neededExports =
     sharedExportEntries (fst (extractExports sharedCode)) (snd (extractExports sharedCode))
       (collisionRenameMap primaryCode sharedCode) neededExports"

definition mergeSharedIntoPrimary ::
  "program \<Rightarrow> program \<Rightarrow> string \<Rightarrow> string \<Rightarrow> string list \<Rightarrow> program" where
  "mergeSharedIntoPrimary primaryCode sharedCode sharedFileName sharedProperty neededExports =
     stripExports (processedSharedCode primaryCode sharedCode)
     @ primaryWithoutSharedImports primaryCode sharedCode sharedFileName
     @ sharedObjectStatements sharedProperty
         (mergedSharedExportEntries primaryCode sharedCode neededExports)"


subsection \<open>The names a module binds, and the identifiers it has\<close>

text \<open>
  A module binds a name at its top level by an import specifier (the local name), by a
  declarator of a variable declaration (the names of its pattern), and by a function
  or class declaration, exported or not.  \<open>boundNames\<close> lists the bound names of a
  program, one entry for every binding.  In a syntactically valid module the list has
  no name twice.  The collision-freedom of a merge is stated with it.
\<close>

fun patternNames :: "pattern \<Rightarrow> string list" where
  "patternNames (PIdentifier n) = [n]"
| "patternNames (ObjectPattern ps) = map snd ps"

fun declaratorNames :: "declarator \<Rightarrow> string list" where
  "declaratorNames (VariableDeclarator p ini) = patternNames p"

fun boundByStmt :: "stmt \<Rightarrow> string list" where
  "boundByStmt (VariableDeclaration ds) = concat (map declaratorNames ds)"
| "boundByStmt (FunctionDeclaration n ps body) = [n]"
| "boundByStmt (ClassDeclaration n ms) = [n]"
| "boundByStmt (ExpressionStatement e) = []"
| "boundByStmt (ReturnStatement e) = []"

fun boundByItem :: "item \<Rightarrow> string list" where
  "boundByItem (ImportDeclaration specs source) = map specLocal specs"
| "boundByItem (ExportNamedDeclaration d specs src) =
     (case d of None \<Rightarrow> [] | Some decl \<Rightarrow> boundByStmt decl)"
| "boundByItem (ExportDefaultDeclaration e) = []"
| "boundByItem (Statement s) = boundByStmt s"

definition boundNames :: "program \<Rightarrow> string list" where
  "boundNames ast = concat (map boundByItem ast)"







text \<open>
  The names of the \<open>Identifier\<close> nodes of a tree outside its import statements, in
  the order of the walk.
\<close>

fun identifiersOfPattern :: "pattern \<Rightarrow> string list" where
  "identifiersOfPattern (PIdentifier n) = [n]"
| "identifiersOfPattern (ObjectPattern ps) = concat (map (\<lambda>kv. [fst kv, snd kv]) ps)"

primrec identifiersOfExpr :: "expr \<Rightarrow> string list"
  and identifiersOfProperty :: "property \<Rightarrow> string list"
  and identifiersOfDeclarator :: "declarator \<Rightarrow> string list"
  and identifiersOfStmt :: "stmt \<Rightarrow> string list" where
  "identifiersOfExpr (Identifier n) = [n]"
| "identifiersOfExpr (Literal v) = []"
| "identifiersOfExpr (MemberExpression ob p) = identifiersOfExpr ob @ [p]"
| "identifiersOfExpr (ComputedMemberExpression ob p) = identifiersOfExpr ob @ identifiersOfExpr p"
| "identifiersOfExpr (CallExpression f args) =
     identifiersOfExpr f @ concat (map identifiersOfExpr args)"
| "identifiersOfExpr (ObjectExpression ps) = concat (map identifiersOfProperty ps)"
| "identifiersOfExpr (FunctionExpression ps body) =
     concat (map identifiersOfPattern ps) @ concat (map identifiersOfStmt body)"
| "identifiersOfProperty (Property k v) = k # identifiersOfExpr v"
| "identifiersOfDeclarator (VariableDeclarator p ini) =
     identifiersOfPattern p
     @ (case map_option identifiersOfExpr ini of None \<Rightarrow> [] | Some ns \<Rightarrow> ns)"
| "identifiersOfStmt (ExpressionStatement e) = identifiersOfExpr e"
| "identifiersOfStmt (ReturnStatement e) = identifiersOfExpr e"
| "identifiersOfStmt (VariableDeclaration ds) = concat (map identifiersOfDeclarator ds)"
| "identifiersOfStmt (FunctionDeclaration n ps body) =
     n # concat (map identifiersOfPattern ps) @ concat (map identifiersOfStmt body)"
| "identifiersOfStmt (ClassDeclaration n ms) = n # concat (map identifiersOfProperty ms)"

fun identifiersOfExportSpecifier :: "export_spec \<Rightarrow> string list" where
  "identifiersOfExportSpecifier (ExportSpecifier l exported) = [l, exported]"

fun identifiersOfItem :: "item \<Rightarrow> string list" where
  "identifiersOfItem (ImportDeclaration specs source) = []"
| "identifiersOfItem (ExportNamedDeclaration d specs src) =
     (case d of None \<Rightarrow> [] | Some decl \<Rightarrow> identifiersOfStmt decl)
     @ concat (map identifiersOfExportSpecifier specs)"
| "identifiersOfItem (ExportDefaultDeclaration e) = identifiersOfExpr e"
| "identifiersOfItem (Statement s) = identifiersOfStmt s"

definition identifiers :: "program \<Rightarrow> string list" where
  "identifiers ast = concat (map identifiersOfItem ast)"




section \<open>The wrapper: recovery of the destructuring\<close>

text \<open>An \<open>ImportMapping\<close> is the pair \<open>(imported, local)\<close>.\<close>

type_synonym ImportMapping = "string \<times> string"

fun mappingOfSpecifier :: "import_spec \<Rightarrow> ImportMapping list" where
  "mappingOfSpecifier (ImportSpecifier imported l) = [(imported, l)]"
| "mappingOfSpecifier (ImportDefaultSpecifier l) = [(''default'', l)]"
| "mappingOfSpecifier (ImportNamespaceSpecifier l) = []"

fun mappingsOfItem :: "item \<Rightarrow> ImportMapping list" where
  "mappingsOfItem (ImportDeclaration specs source) =
     (if includesStr source SHARED_CHUNK_NAME then concat (map mappingOfSpecifier specs) else [])"
| "mappingsOfItem (ExportNamedDeclaration d specs src) = []"
| "mappingsOfItem (ExportDefaultDeclaration e) = []"
| "mappingsOfItem (Statement s) = []"

definition extractSharedImportMappings :: "program \<Rightarrow> ImportMapping list" where
  "extractSharedImportMappings esm = concat (map mappingsOfItem esm)"

subsection \<open>The shared parameter\<close>

text \<open>
  The parameter lists of the function expressions of a tree, in the order in which the
  walker enters them: a node before its children, the children in the order of the
  node's fields.
\<close>

primrec functionParamsExpr :: "expr \<Rightarrow> pattern list list"
  and functionParamsProperty :: "property \<Rightarrow> pattern list list"
  and functionParamsDeclarator :: "declarator \<Rightarrow> pattern list list"
  and functionParamsStmt :: "stmt \<Rightarrow> pattern list list" where
  "functionParamsExpr (Identifier n) = []"
| "functionParamsExpr (Literal v) = []"
| "functionParamsExpr (MemberExpression ob p) = functionParamsExpr ob"
| "functionParamsExpr (ComputedMemberExpression ob p) =
     functionParamsExpr ob @ functionParamsExpr p"
| "functionParamsExpr (CallExpression f args) =
     functionParamsExpr f @ concat (map functionParamsExpr args)"
| "functionParamsExpr (ObjectExpression ps) = concat (map functionParamsProperty ps)"
| "functionParamsExpr (FunctionExpression ps body) = ps # concat (map functionParamsStmt body)"
| "functionParamsProperty (Property k v) = functionParamsExpr v"
| "functionParamsDeclarator (VariableDeclarator p ini) =
     (case map_option functionParamsExpr ini of None \<Rightarrow> [] | Some pss \<Rightarrow> pss)"
| "functionParamsStmt (ExpressionStatement e) = functionParamsExpr e"
| "functionParamsStmt (ReturnStatement e) = functionParamsExpr e"
| "functionParamsStmt (VariableDeclaration ds) = concat (map functionParamsDeclarator ds)"
| "functionParamsStmt (FunctionDeclaration n ps body) = concat (map functionParamsStmt body)"
| "functionParamsStmt (ClassDeclaration n ms) = concat (map functionParamsProperty ms)"

fun functionParamsItem :: "item \<Rightarrow> pattern list list" where
  "functionParamsItem (ImportDeclaration specs source) = []"
| "functionParamsItem (ExportNamedDeclaration d specs src) =
     (case d of None \<Rightarrow> [] | Some decl \<Rightarrow> functionParamsStmt decl)"
| "functionParamsItem (ExportDefaultDeclaration e) = functionParamsExpr e"
| "functionParamsItem (Statement s) = functionParamsStmt s"

definition functionParams :: "program \<Rightarrow> pattern list list" where
  "functionParams ast = concat (map functionParamsItem ast)"

text \<open>The name of the last parameter, when there is one and it is an identifier.\<close>

definition lastParamName :: "pattern list \<Rightarrow> string option" where
  "lastParamName params =
     (if params = [] then None
      else case last params of PIdentifier n \<Rightarrow> Some n | ObjectPattern ps \<Rightarrow> None)"

definition hasSharedParam :: "pattern list \<Rightarrow> bool" where
  "hasSharedParam params = (lastParamName params \<noteq> None)"

text \<open>
  \<open>sharedParamName\<close> after the first walk: it is set at the first function expression
  whose last parameter is an identifier.
\<close>

definition findSharedParam :: "program \<Rightarrow> string option" where
  "findSharedParam ast =
     (case List.map_filter lastParamName (functionParams ast) of
        [] \<Rightarrow> None
      | n # rest \<Rightarrow> Some n)"

subsection \<open>The accesses to the shared parameter\<close>

primrec accessesExpr :: "string \<Rightarrow> expr \<Rightarrow> string list"
  and accessesProperty :: "string \<Rightarrow> property \<Rightarrow> string list"
  and accessesDeclarator :: "string \<Rightarrow> declarator \<Rightarrow> string list"
  and accessesStmt :: "string \<Rightarrow> stmt \<Rightarrow> string list" where
  "accessesExpr nm (Identifier n) = []"
| "accessesExpr nm (Literal v) = []"
| "accessesExpr nm (MemberExpression ob p) =
     (if ob = Identifier nm then [p] else accessesExpr nm ob)"
| "accessesExpr nm (ComputedMemberExpression ob p) = accessesExpr nm ob @ accessesExpr nm p"
| "accessesExpr nm (CallExpression f args) =
     accessesExpr nm f @ concat (map (accessesExpr nm) args)"
| "accessesExpr nm (ObjectExpression ps) = concat (map (accessesProperty nm) ps)"
| "accessesExpr nm (FunctionExpression ps body) = concat (map (accessesStmt nm) body)"
| "accessesProperty nm (Property k v) = accessesExpr nm v"
| "accessesDeclarator nm (VariableDeclarator p ini) =
     (case map_option (accessesExpr nm) ini of None \<Rightarrow> [] | Some ps \<Rightarrow> ps)"
| "accessesStmt nm (ExpressionStatement e) = accessesExpr nm e"
| "accessesStmt nm (ReturnStatement e) = accessesExpr nm e"
| "accessesStmt nm (VariableDeclaration ds) = concat (map (accessesDeclarator nm) ds)"
| "accessesStmt nm (FunctionDeclaration n ps body) = concat (map (accessesStmt nm) body)"
| "accessesStmt nm (ClassDeclaration n ms) = concat (map (accessesProperty nm) ms)"

fun accessesItem :: "string \<Rightarrow> item \<Rightarrow> string list" where
  "accessesItem nm (ImportDeclaration specs source) = []"
| "accessesItem nm (ExportNamedDeclaration d specs src) =
     (case d of None \<Rightarrow> [] | Some decl \<Rightarrow> accessesStmt nm decl)"
| "accessesItem nm (ExportDefaultDeclaration e) = accessesExpr nm e"
| "accessesItem nm (Statement s) = accessesStmt nm s"

text \<open>The \<open>propName\<close>s of \<open>propertyAccesses\<close>, in the order of the walk.\<close>

definition propertyAccesses :: "string \<Rightarrow> program \<Rightarrow> string list" where
  "propertyAccesses nm ast = concat (map (accessesItem nm) ast)"

subsection \<open>The three edits\<close>

text \<open>
  \<open>replaceFirst P xs ys\<close> is \<open>xs\<close> with its first element that satisfies \<open>P\<close>
  replaced by the element of \<open>ys\<close> at the same place.
\<close>

fun replaceFirst :: "('a \<Rightarrow> bool) \<Rightarrow> 'a list \<Rightarrow> 'a list \<Rightarrow> 'a list" where
  "replaceFirst P [] ys = []"
| "replaceFirst P (x # xs) [] = x # xs"
| "replaceFirst P (x # xs) (y # ys) = (if P x then y # xs else x # replaceFirst P xs ys)"

text \<open>
  The first edit writes the destructuring pattern over the shared parameter, which is
  found by its position: the last parameter of the first function expression, in the
  order of the walk, whose last parameter is an identifier.
\<close>

fun replaceParamExpr :: "pattern \<Rightarrow> expr \<Rightarrow> expr"
  and replaceParamProperty :: "pattern \<Rightarrow> property \<Rightarrow> property"
  and replaceParamDeclarator :: "pattern \<Rightarrow> declarator \<Rightarrow> declarator"
  and replaceParamStmt :: "pattern \<Rightarrow> stmt \<Rightarrow> stmt" where
  "replaceParamExpr pat (Identifier n) = Identifier n"
| "replaceParamExpr pat (Literal v) = Literal v"
| "replaceParamExpr pat (MemberExpression ob p) = MemberExpression (replaceParamExpr pat ob) p"
| "replaceParamExpr pat (ComputedMemberExpression ob p) =
     (if list_ex hasSharedParam (functionParamsExpr ob)
      then ComputedMemberExpression (replaceParamExpr pat ob) p
      else ComputedMemberExpression ob (replaceParamExpr pat p))"
| "replaceParamExpr pat (CallExpression f args) =
     (if list_ex hasSharedParam (functionParamsExpr f)
      then CallExpression (replaceParamExpr pat f) args
      else CallExpression f
             (replaceFirst (\<lambda>a. list_ex hasSharedParam (functionParamsExpr a)) args
                (map (replaceParamExpr pat) args)))"
| "replaceParamExpr pat (ObjectExpression ps) =
     ObjectExpression
       (replaceFirst (\<lambda>a. list_ex hasSharedParam (functionParamsProperty a)) ps
          (map (replaceParamProperty pat) ps))"
| "replaceParamExpr pat (FunctionExpression ps body) =
     (if hasSharedParam ps then FunctionExpression (butlast ps @ [pat]) body
      else FunctionExpression ps
             (replaceFirst (\<lambda>a. list_ex hasSharedParam (functionParamsStmt a)) body
                (map (replaceParamStmt pat) body)))"
| "replaceParamProperty pat (Property k v) = Property k (replaceParamExpr pat v)"
| "replaceParamDeclarator pat (VariableDeclarator p ini) =
     VariableDeclarator p (map_option (replaceParamExpr pat) ini)"
| "replaceParamStmt pat (ExpressionStatement e) = ExpressionStatement (replaceParamExpr pat e)"
| "replaceParamStmt pat (ReturnStatement e) = ReturnStatement (replaceParamExpr pat e)"
| "replaceParamStmt pat (VariableDeclaration ds) =
     VariableDeclaration
       (replaceFirst (\<lambda>a. list_ex hasSharedParam (functionParamsDeclarator a)) ds
          (map (replaceParamDeclarator pat) ds))"
| "replaceParamStmt pat (FunctionDeclaration n ps body) =
     FunctionDeclaration n ps
       (replaceFirst (\<lambda>a. list_ex hasSharedParam (functionParamsStmt a)) body
          (map (replaceParamStmt pat) body))"
| "replaceParamStmt pat (ClassDeclaration n ms) =
     ClassDeclaration n
       (replaceFirst (\<lambda>a. list_ex hasSharedParam (functionParamsProperty a)) ms
          (map (replaceParamProperty pat) ms))"

fun replaceParamItem :: "pattern \<Rightarrow> item \<Rightarrow> item" where
  "replaceParamItem pat (ImportDeclaration specs source) = ImportDeclaration specs source"
| "replaceParamItem pat (ExportNamedDeclaration d specs src) =
     ExportNamedDeclaration (map_option (replaceParamStmt pat) d) specs src"
| "replaceParamItem pat (ExportDefaultDeclaration e) =
     ExportDefaultDeclaration (replaceParamExpr pat e)"
| "replaceParamItem pat (Statement s) = Statement (replaceParamStmt pat s)"

definition replaceParam :: "pattern \<Rightarrow> program \<Rightarrow> program" where
  "replaceParam pat ast =
     replaceFirst (\<lambda>a. list_ex hasSharedParam (functionParamsItem a)) ast
       (map (replaceParamItem pat) ast)"

text \<open>
  The second edit writes \<open>importToLocal.get(propName) ?? propName\<close> over every
  access \<open>sharedParam.propName\<close>.
\<close>

primrec rewriteAccessesExpr :: "string \<Rightarrow> rename_map \<Rightarrow> expr \<Rightarrow> expr"
  and rewriteAccessesProperty :: "string \<Rightarrow> rename_map \<Rightarrow> property \<Rightarrow> property"
  and rewriteAccessesDeclarator :: "string \<Rightarrow> rename_map \<Rightarrow> declarator \<Rightarrow> declarator"
  and rewriteAccessesStmt :: "string \<Rightarrow> rename_map \<Rightarrow> stmt \<Rightarrow> stmt" where
  "rewriteAccessesExpr nm i2l (Identifier n) = Identifier n"
| "rewriteAccessesExpr nm i2l (Literal v) = Literal v"
| "rewriteAccessesExpr nm i2l (MemberExpression ob p) =
     (if ob = Identifier nm then Identifier (getOr i2l p p)
      else MemberExpression (rewriteAccessesExpr nm i2l ob) p)"
| "rewriteAccessesExpr nm i2l (ComputedMemberExpression ob p) =
     ComputedMemberExpression (rewriteAccessesExpr nm i2l ob) (rewriteAccessesExpr nm i2l p)"
| "rewriteAccessesExpr nm i2l (CallExpression f args) =
     CallExpression (rewriteAccessesExpr nm i2l f) (map (rewriteAccessesExpr nm i2l) args)"
| "rewriteAccessesExpr nm i2l (ObjectExpression ps) =
     ObjectExpression (map (rewriteAccessesProperty nm i2l) ps)"
| "rewriteAccessesExpr nm i2l (FunctionExpression ps body) =
     FunctionExpression ps (map (rewriteAccessesStmt nm i2l) body)"
| "rewriteAccessesProperty nm i2l (Property k v) = Property k (rewriteAccessesExpr nm i2l v)"
| "rewriteAccessesDeclarator nm i2l (VariableDeclarator p ini) =
     VariableDeclarator p (map_option (rewriteAccessesExpr nm i2l) ini)"
| "rewriteAccessesStmt nm i2l (ExpressionStatement e) =
     ExpressionStatement (rewriteAccessesExpr nm i2l e)"
| "rewriteAccessesStmt nm i2l (ReturnStatement e) = ReturnStatement (rewriteAccessesExpr nm i2l e)"
| "rewriteAccessesStmt nm i2l (VariableDeclaration ds) =
     VariableDeclaration (map (rewriteAccessesDeclarator nm i2l) ds)"
| "rewriteAccessesStmt nm i2l (FunctionDeclaration n ps body) =
     FunctionDeclaration n ps (map (rewriteAccessesStmt nm i2l) body)"
| "rewriteAccessesStmt nm i2l (ClassDeclaration n ms) =
     ClassDeclaration n (map (rewriteAccessesProperty nm i2l) ms)"

fun rewriteAccessesItem :: "string \<Rightarrow> rename_map \<Rightarrow> item \<Rightarrow> item" where
  "rewriteAccessesItem nm i2l (ImportDeclaration specs source) = ImportDeclaration specs source"
| "rewriteAccessesItem nm i2l (ExportNamedDeclaration d specs src) =
     ExportNamedDeclaration (map_option (rewriteAccessesStmt nm i2l) d) specs src"
| "rewriteAccessesItem nm i2l (ExportDefaultDeclaration e) =
     ExportDefaultDeclaration (rewriteAccessesExpr nm i2l e)"
| "rewriteAccessesItem nm i2l (Statement s) = Statement (rewriteAccessesStmt nm i2l s)"

text \<open>
  The third edit removes every expression statement that is the string literal
  \<open>'use strict'\<close>.  Statements stand in function bodies and at the top of the program.
\<close>

definition isUseStrict :: "stmt \<Rightarrow> bool" where
  "isUseStrict s = (s = ExpressionStatement (Literal ''use strict''))"

primrec removeUseStrictExpr :: "expr \<Rightarrow> expr"
  and removeUseStrictProperty :: "property \<Rightarrow> property"
  and removeUseStrictDeclarator :: "declarator \<Rightarrow> declarator"
  and removeUseStrictStmt :: "stmt \<Rightarrow> stmt" where
  "removeUseStrictExpr (Identifier n) = Identifier n"
| "removeUseStrictExpr (Literal v) = Literal v"
| "removeUseStrictExpr (MemberExpression ob p) = MemberExpression (removeUseStrictExpr ob) p"
| "removeUseStrictExpr (ComputedMemberExpression ob p) =
     ComputedMemberExpression (removeUseStrictExpr ob) (removeUseStrictExpr p)"
| "removeUseStrictExpr (CallExpression f args) =
     CallExpression (removeUseStrictExpr f) (map removeUseStrictExpr args)"
| "removeUseStrictExpr (ObjectExpression ps) = ObjectExpression (map removeUseStrictProperty ps)"
| "removeUseStrictExpr (FunctionExpression ps body) =
     FunctionExpression ps (filter (\<lambda>s. \<not> isUseStrict s) (map removeUseStrictStmt body))"
| "removeUseStrictProperty (Property k v) = Property k (removeUseStrictExpr v)"
| "removeUseStrictDeclarator (VariableDeclarator p ini) =
     VariableDeclarator p (map_option removeUseStrictExpr ini)"
| "removeUseStrictStmt (ExpressionStatement e) = ExpressionStatement (removeUseStrictExpr e)"
| "removeUseStrictStmt (ReturnStatement e) = ReturnStatement (removeUseStrictExpr e)"
| "removeUseStrictStmt (VariableDeclaration ds) =
     VariableDeclaration (map removeUseStrictDeclarator ds)"
| "removeUseStrictStmt (FunctionDeclaration n ps body) =
     FunctionDeclaration n ps (filter (\<lambda>s. \<not> isUseStrict s) (map removeUseStrictStmt body))"
| "removeUseStrictStmt (ClassDeclaration n ms) = ClassDeclaration n (map removeUseStrictProperty ms)"

fun removeUseStrictItem :: "item \<Rightarrow> item list" where
  "removeUseStrictItem (ImportDeclaration specs source) = [ImportDeclaration specs source]"
| "removeUseStrictItem (ExportNamedDeclaration d specs src) =
     [ExportNamedDeclaration (map_option removeUseStrictStmt d) specs src]"
| "removeUseStrictItem (ExportDefaultDeclaration e) =
     [ExportDefaultDeclaration (removeUseStrictExpr e)]"
| "removeUseStrictItem (Statement s) =
     (if isUseStrict s then [] else [Statement (removeUseStrictStmt s)])"

subsection \<open>\<open>destructureSharedParameter\<close>\<close>

text \<open>
  With no mappings given, one mapping is made for each accessed property, which is
  mapped to itself; \<open>new Set\<close> keeps each property once, in the order of the accesses.
\<close>

definition effectiveMappings :: "string \<Rightarrow> program \<Rightarrow> ImportMapping list \<Rightarrow> ImportMapping list" where
  "effectiveMappings nm iife mappings =
     (if mappings = [] then map (\<lambda>prop. (prop, prop)) (fold setAdd (propertyAccesses nm iife) [])
      else mappings)"

text \<open>\<open>new Map(effectiveMappings.map(m => [m.imported, m.local]))\<close>\<close>

definition importToLocal :: "ImportMapping list \<Rightarrow> rename_map" where
  "importToLocal mappings = fold (\<lambda>m acc. AList.update (fst m) (snd m) acc) mappings []"

text \<open>
  The entry \<open>imported: local\<close>, or \<open>imported\<close> alone when the two names are equal, is
  the property \<open>(imported, local)\<close> of the pattern.
\<close>

definition destructureSharedParameter :: "program \<Rightarrow> ImportMapping list \<Rightarrow> program" where
  "destructureSharedParameter iife mappings =
     (case findSharedParam iife of
        None \<Rightarrow> iife
      | Some sharedParamName \<Rightarrow>
          if effectiveMappings sharedParamName iife mappings = [] then iife
          else concat (map removeUseStrictItem
                 (map (rewriteAccessesItem sharedParamName
                         (importToLocal (effectiveMappings sharedParamName iife mappings)))
                    (replaceParam
                       (ObjectPattern (effectiveMappings sharedParamName iife mappings)) iife))))"

section \<open>The globals function of the wrapper\<close>

datatype error = Error string

text \<open>
  \<open>ConvertOptions\<close>.  The field \<open>code\<close> is here \<open>esmCode\<close> and the parser is
  left out; \<open>None\<close> is \<open>undefined\<close> or \<open>null\<close>.
\<close>

record ConvertOptions =
  esmCode :: program
  globalName :: "string option"
  globals :: "(string \<times> string) list"
  sharedGlobalPath :: "string option"
  sharedChunkFileName :: "string option"
  skipRequireGlobals :: "bool option"

text \<open>
  JavaScript truthiness of a value of type \<open>string | undefined | null\<close>: defined and
  not the empty string.
\<close>

fun truthy :: "string option \<Rightarrow> bool" where
  "truthy None = False"
| "truthy (Some s) = (s \<noteq> [])"

definition missingGlobalMessage :: "string \<Rightarrow> string" where
  "missingGlobalMessage ident =
     ''[iife-split] Missing global for external \"'' @ ident @ ''\". '' @
     ''IIFE builds require all externals to have a global mapping. '' @
     ''Add it to output.globals in your Rollup config, e.g.: globals: { ''
       @ [CHR 0x27] @ ident @ [CHR 0x27] @ '': '' @ [CHR 0x27] @ ''SomeGlobalName''
       @ [CHR 0x27] @ '' }''"

text \<open>
  \<open>rollupGlobals\<close>, the closure built by \<open>convertToIife\<close>.  The result
  \<open>Inr None\<close> is the JavaScript \<open>undefined\<close> that leaves the name to the build engine;
  \<open>Inl\<close> is the thrown error.  \<open>globals[id]\<close> is the lookup in the configured map.
\<close>

definition ownGlobal :: "ConvertOptions \<Rightarrow> string \<Rightarrow> bool" where
  "ownGlobal opts ident =
     (case globalName opts of
        None \<Rightarrow> False
      | Some g \<Rightarrow> g \<noteq> [] \<and> (ident = g \<or> startsWith g (ident @ ''.'')))"

definition sharedImport :: "ConvertOptions \<Rightarrow> string \<Rightarrow> bool" where
  "sharedImport opts ident =
     (truthy (sharedGlobalPath opts) \<and>
      (includesStr ident SHARED_CHUNK_NAME \<or>
       (case sharedChunkFileName opts of
          None \<Rightarrow> False
        | Some f \<Rightarrow> f \<noteq> [] \<and> includesStr ident (stripJsExtension f))))"

definition rollupGlobals :: "ConvertOptions \<Rightarrow> string \<Rightarrow> error + string option" where
  "rollupGlobals opts ident =
     (if ownGlobal opts ident then Inr (Some ident)
      else if sharedImport opts ident then Inr (sharedGlobalPath opts)
      else (case map_of (globals opts) ident of
              Some g \<Rightarrow> Inr (Some g)
            | None \<Rightarrow>
                if skipRequireGlobals opts = Some True then Inr None
                else Inl (Error (missingGlobalMessage ident))))"

section \<open>\<open>convertToIife\<close> and the throwaway build\<close>

text \<open>
  The build engine is not part of the program.  What one call of \<open>convertToIife\<close>
  sees of it is: whether \<open>rollup(...)\<close> rejects; for which external module ids
  \<open>bundle.generate\<close> asks the globals function, in which order; whether
  \<open>bundle.generate\<close> rejects for a reason of its own; and the code of the wrapper it
  returns.  \<open>bundle.close()\<close> is taken to succeed.  \<open>stripNamespaceGuards\<close> works on
  the text of the wrapper with two regular expressions and is a parameter here.
\<close>

record BuildEngine =
  rollupRejects :: "error option"
  externalIds :: "string list"
  generateRejects :: "error option"
  outputCode :: program
  stripNamespaceGuards :: "program \<Rightarrow> program"

datatype bundle_state = Open | Closed

text \<open>An exception thrown by the globals function leaves \<open>bundle.generate\<close> at once.\<close>

fun callGlobals :: "(string \<Rightarrow> error + string option) \<Rightarrow> string list \<Rightarrow> error option" where
  "callGlobals g [] = None"
| "callGlobals g (ident # rest) =
     (case g ident of Inl e \<Rightarrow> Some e | Inr r \<Rightarrow> callGlobals g rest)"

definition generate :: "BuildEngine \<Rightarrow> (string \<Rightarrow> error + string option) \<Rightarrow> error + program" where
  "generate engine g =
     (case callGlobals g (externalIds engine) of
        Some e \<Rightarrow> Inl e
      | None \<Rightarrow>
          (case generateRejects engine of
             Some e \<Rightarrow> Inl e
           | None \<Rightarrow> Inr (outputCode engine)))"

definition postProcess :: "BuildEngine \<Rightarrow> ConvertOptions \<Rightarrow> ImportMapping list \<Rightarrow> program \<Rightarrow> program" where
  "postProcess engine opts importMappings result =
     (if truthy (sharedGlobalPath opts) \<and> importMappings \<noteq> []
      then destructureSharedParameter (stripNamespaceGuards engine result) importMappings
      else if truthy (globalName opts) \<and> \<not> includesStr (the (globalName opts)) ''.''
      then result
      else if truthy (globalName opts) then stripNamespaceGuards engine result
      else result)"

text \<open>
  The result of \<open>convertToIife\<close> is what the promise settles with, and the state of the
  build instance at that moment: \<open>None\<close> when none was created.
\<close>

definition convertToIife ::
  "BuildEngine \<Rightarrow> ConvertOptions \<Rightarrow> (error + program) \<times> bundle_state option" where
  "convertToIife engine opts =
     (let importMappings =
            (if truthy (sharedGlobalPath opts) then extractSharedImportMappings (esmCode opts)
             else [])
      in case rollupRejects engine of
           Some e \<Rightarrow> (Inl e, None)
         | None \<Rightarrow>
             (case generate engine (rollupGlobals opts) of
                Inl e \<Rightarrow> (Inl e, Some Open)
              | Inr result \<Rightarrow> (Inr (postProcess engine opts importMappings result), Some Closed)))"

section \<open>Example chunks\<close>

text \<open>
  The primary chunk
  \<^verbatim>\<open>import { createPlugin as cp, other } from 'externalLib';
import { sharedHelper } from './__shared__.js';
export function main() { return cp(other, sharedHelper()); }\<close>
  and the shared chunk
  \<^verbatim>\<open>import { createPlugin } from 'externalLib';
export function sharedHelper() { return createPlugin(); }\<close>
\<close>

definition dupePrimary :: program where
  "dupePrimary =
     [ImportDeclaration [ImportSpecifier ''createPlugin'' ''cp'', ImportSpecifier ''other'' ''other'']
        ''externalLib'',
      ImportDeclaration [ImportSpecifier ''sharedHelper'' ''sharedHelper''] ''./__shared__.js'',
      ExportNamedDeclaration
        (Some (FunctionDeclaration ''main'' []
           [ReturnStatement (CallExpression (Identifier ''cp'')
              [Identifier ''other'', CallExpression (Identifier ''sharedHelper'') []])]))
        [] None]"

definition dupeShared :: program where
  "dupeShared =
     [ImportDeclaration [ImportSpecifier ''createPlugin'' ''createPlugin''] ''externalLib'',
      ExportNamedDeclaration
        (Some (FunctionDeclaration ''sharedHelper'' []
           [ReturnStatement (CallExpression (Identifier ''createPlugin'') [])]))
        [] None]"





section \<open>Properties of the string operations\<close>

lemma startsWith_prefix: "startsWith s p \<longleftrightarrow> prefix p s"
  by (induction s p rule: startsWith.induct) auto


lemma endsWith_suffix: "endsWith s e \<longleftrightarrow> suffix e s"
  by (simp add: endsWith_def startsWith_prefix suffix_to_prefix)


lemma stripJsExtension_other: "\<not> suffix ''.js'' f \<Longrightarrow> stripJsExtension f = f"
  by (simp add: stripJsExtension_def endsWith_suffix)

section \<open>Sets built by the extractors\<close>

lemma set_fold_setAdd: "set (fold setAdd xs acc) = set xs \<union> set acc"
  by (induction xs arbitrary: acc) (auto simp: setAdd_def)

lemma set_fold_collect:
  "set (fold (\<lambda>node acc. fold setAdd (f node) acc) ast acc0)
     = (\<Union>node \<in> set ast. set (f node)) \<union> set acc0"
  by (induction ast arbitrary: acc0) (auto simp: set_fold_setAdd)

lemma set_extractTopLevelDeclarations:
  "set (extractTopLevelDeclarations ast) = (\<Union>node \<in> set ast. set (declaredByItem node))"
  by (simp add: extractTopLevelDeclarations_def set_fold_collect)


section \<open>Stripping exports and the declared names\<close>

lemma declared_stripItem:
  "(\<Union>it \<in> set (stripItem node). set (declaredByItem it))
     = set (declaredByItem node) \<union> (if isExportDefault node then {''__shared_default__''} else {})"
  by (cases node rule: stripItem.cases) (simp_all)

text \<open>
  C8, as amended.  For every module \<open>c\<close>, the names that
  \<open>extractTopLevelDeclarations\<close> finds in \<open>stripExports c\<close> are the names it finds
  in \<open>c\<close>, and one more name, \<open>__shared_default__\<close>, when \<open>c\<close> has an
  \<open>export default\<close>: the two sets are equal exactly for the modules without a
  default export (or that already declare \<open>__shared_default__\<close>).
\<close>

theorem stripExports_declarations:
  "set (extractTopLevelDeclarations (stripExports c))
     = set (extractTopLevelDeclarations c)
       \<union> (if snd (extractExports c) then {''__shared_default__''} else {})"
proof -
  have "set (extractTopLevelDeclarations (stripExports c))
      = (\<Union>node \<in> set c. \<Union>it \<in> set (stripItem node). set (declaredByItem it))"
    by (simp add: set_extractTopLevelDeclarations stripExports_def)
  also have "\<dots> = (\<Union>node \<in> set c. set (declaredByItem node))
      \<union> (\<Union>node \<in> set c. if isExportDefault node then {''__shared_default__''} else {})"
    unfolding declared_stripItem by blast
  also have "(\<Union>node \<in> set c. if isExportDefault node then {''__shared_default__''} else {})
      = (if snd (extractExports c) then {''__shared_default__''} else {})"
    by (auto simp: extractExports_def list_ex_iff split: if_splits)
  finally show ?thesis by (simp add: set_extractTopLevelDeclarations)
qed

theorem stripExports_declarations_witness:
  "set (extractTopLevelDeclarations (stripExports
      [ExportNamedDeclaration (Some (FunctionDeclaration ''helper'' [] [])) [] None,
       ExportDefaultDeclaration (Identifier ''helper'')]))
     = {''helper'', ''__shared_default__''}
   \<and> set (extractTopLevelDeclarations (stripExports
      [ExportNamedDeclaration (Some (FunctionDeclaration ''helper'' [] [])) [] None,
       ExportNamedDeclaration None [ExportSpecifier ''helper'' ''h''] None]))
     = {''helper''}"
  using stripExports_declarations [of
      "[ExportNamedDeclaration (Some (FunctionDeclaration ''helper'' [] [])) [] None,
        ExportDefaultDeclaration (Identifier ''helper'')]"]
    stripExports_declarations [of
      "[ExportNamedDeclaration (Some (FunctionDeclaration ''helper'' [] [])) [] None,
       ExportNamedDeclaration None [ExportSpecifier ''helper'' ''h''] None]"]
  by (simp add: extractExports_def extractTopLevelDeclarations_def setAdd_def insert_commute)

text \<open>
  The module \<open>export default 'v1';\<close> declares no name; stripped, it is
  \<open>const __shared_default__ = 'v1';\<close>.
\<close>

theorem stripExports_declarations_counterexample:
  "set (extractTopLevelDeclarations (stripExports [ExportDefaultDeclaration (Literal ''v1'')]))
     \<noteq> set (extractTopLevelDeclarations [ExportDefaultDeclaration (Literal ''v1'')])"
  by (simp add: extractTopLevelDeclarations_def stripExports_def setAdd_def)

section \<open>The collision resolver\<close>







section \<open>The shared object\<close>




section \<open>Renaming the local binding of an import specifier\<close>



section \<open>Recovery of the destructuring\<close>

subsection \<open>Lists\<close>


lemma replaceFirst_append:
  "length xs = length xs' \<Longrightarrow>
     replaceFirst P (xs @ ys) (xs' @ ys')
       = (if list_ex P xs then replaceFirst P xs xs' @ ys else xs @ replaceFirst P ys ys')"
  by (induction P xs xs' rule: replaceFirst.induct) auto

lemma replaceFirst_map_append:
  "replaceFirst P (xs @ ys) (map g (xs @ ys))
     = (if list_ex P xs then replaceFirst P xs (map g xs) @ ys
        else xs @ replaceFirst P ys (map g ys))"
  by (simp add: replaceFirst_append)



lemma concat_filter_empty:
  assumes "\<And>x. x \<in> set xs \<Longrightarrow> \<not> P x \<Longrightarrow> f x = []"
  shows "concat (map f (filter P xs)) = concat (map f xs)"
  using assms by (induction xs) auto


subsection \<open>What the three edits leave as it is\<close>




















subsection \<open>The shared parameter and its pattern\<close>










section \<open>Renaming and the identifiers of a program\<close>

lemma renamed_Nil: "renamed [] = (\<lambda>n. n)"
  by (rule ext) (simp add: renamed_def lookupRename_def)

lemma renamed_entry: "map_of m k = Some v \<Longrightarrow> v \<noteq> [] \<Longrightarrow> renamed m k = v"
  by (simp add: renamed_def lookupRename_def)


lemma identifiers_renamePattern:
  "identifiersOfPattern (renamePattern m p) = map (renamed m) (identifiersOfPattern p)"
  by (cases p) (simp_all add: map_concat comp_def)

lemma identifiers_rename_aux:
  "identifiersOfExpr (renameExpr m e) = map (renamed m) (identifiersOfExpr e)"
  "identifiersOfProperty (renameProperty m p) = map (renamed m) (identifiersOfProperty p)"
  "identifiersOfDeclarator (renameDeclarator m d) = map (renamed m) (identifiersOfDeclarator d)"
  "identifiersOfStmt (renameStmt m s) = map (renamed m) (identifiersOfStmt s)"
proof (induction e and p and d and s)
  case (VariableDeclarator p ini)
  then show ?case by (cases ini) (auto simp: identifiers_renamePattern)
qed (auto simp: map_concat comp_def identifiers_renamePattern intro!: arg_cong [of _ _ concat])

lemma identifiers_renameItem:
  "identifiersOfItem (renameItem m it) = map (renamed m) (identifiersOfItem it)"
proof (cases it)
  case (ExportNamedDeclaration d specs src)
  have "identifiersOfExportSpecifier (renameExportSpecifier m sp)
      = map (renamed m) (identifiersOfExportSpecifier sp)" for sp
    by (cases sp) simp
  then have "concat (map identifiersOfExportSpecifier (map (renameExportSpecifier m) specs))
      = map (renamed m) (concat (map identifiersOfExportSpecifier specs))"
    by (simp add: map_concat comp_def)
  with ExportNamedDeclaration show ?thesis
    by (cases d) (simp_all add: identifiers_rename_aux)
qed (simp_all add: identifiers_rename_aux)

lemma identifiers_renameIdentifiers:
  "identifiers (renameIdentifiers ast m) = map (renamed m) (identifiers ast)"
proof (cases "m = []")
  case True
  then show ?thesis by (simp add: renameIdentifiers_def renamed_Nil)
next
  case False
  then show ?thesis
    by (simp add: renameIdentifiers_def identifiers_def map_concat comp_def
        identifiers_renameItem)
qed

section \<open>Deduplication of the external imports\<close>

lemma mset_rebuildImport:
  "mset (rebuildImport specs parts namedParts) = mset specs + mset parts + mset namedParts"
  by (induction specs parts namedParts rule: rebuildImport.induct) simp_all

lemma set_rebuildImport: "set (rebuildImport specs [] []) = set specs"
  using mset_rebuildImport [of specs "[]" "[]"] by (metis add.right_neutral mset.simps(1) set_mset_mset)

lemma dedupSpecifiers_fst:
  "fst (dedupSpecifiers imps specs rm) = filter (\<lambda>s. findInPrimary s imps = None) specs"
  by (induction specs arbitrary: rm) (auto simp: case_prod_beta split: option.splits)

lemma dedupSpecifiers_other:
  "k \<notin> specLocal ` set specs \<Longrightarrow> map_of (snd (dedupSpecifiers imps specs rm)) k = map_of rm k"
  by (induction specs arbitrary: rm) (auto simp: case_prod_beta update_conv' split: option.splits)


lemma dedupSpecifiers_entry:
  assumes "distinct (map specLocal specs)" and "spec \<in> set specs"
    and "findInPrimary spec imps = Some m" and "specLocal m \<noteq> specLocal spec"
  shows "map_of (snd (dedupSpecifiers imps specs rm)) (specLocal spec) = Some (specLocal m)"
  using assms(1,2)
proof (induction specs arbitrary: rm)
  case Nil
  then show ?case by simp
next
  case (Cons s specs)
  show ?case
  proof (cases "s = spec")
    case True
    with Cons.prems have "specLocal spec \<notin> specLocal ` set specs" by auto
    from dedupSpecifiers_other [OF this] True assms(3,4) show ?thesis
      by (simp add: update_conv')
  next
    case False
    with Cons.prems have "spec \<in> set specs" "distinct (map specLocal specs)" by auto
    from Cons.IH [OF this(2) this(1)] show ?thesis
      by (simp add: case_prod_beta split: option.splits)
  qed
qed


lemma dedupItem_fst_import:
  "fst (dedupItem SI (ImportDeclaration specs src) rm)
     = (if isExternalSource src \<and> filter (\<lambda>imp. fst imp = src) SI \<noteq> []
        then (if filter (\<lambda>s. findInPrimary s (filter (\<lambda>imp. fst imp = src) SI) = None) specs = []
              then []
              else if length (filter (\<lambda>s. findInPrimary s (filter (\<lambda>imp. fst imp = src) SI) = None) specs)
                        < length specs
              then [ImportDeclaration
                      (rebuildImport
                         (filter (\<lambda>s. findInPrimary s (filter (\<lambda>imp. fst imp = src) SI) = None) specs)
                         [] []) src]
              else [ImportDeclaration specs src])
        else [ImportDeclaration specs src])"
  using dedupSpecifiers_fst [of "filter (\<lambda>imp. fst imp = src) SI" specs rm]
  by (simp add: Let_def case_prod_beta)

lemma dedupItem_fst_state: "fst (dedupItem SI it rm) = fst (dedupItem SI it [])"
  by (cases it) (simp_all add: dedupItem_fst_import del: dedupItem.simps(1))

lemma dedupItems_fst:
  "fst (dedupItems SI P rm) = concat (map (\<lambda>it. fst (dedupItem SI it [])) P)"
proof (induction P arbitrary: rm)
  case Nil
  then show ?case by simp
next
  case (Cons it P)
  then show ?case
    using dedupItem_fst_state [of SI it rm] by (simp add: case_prod_beta)
qed

lemma dedupItem_snd_import:
  "snd (dedupItem SI (ImportDeclaration specs src) rm)
     = (if isExternalSource src \<and> filter (\<lambda>imp. fst imp = src) SI \<noteq> []
        then snd (dedupSpecifiers (filter (\<lambda>imp. fst imp = src) SI) specs rm) else rm)"
  by (simp add: Let_def case_prod_beta)

lemma dedupItem_snd_other:
  "k \<notin> set (boundByItem it) \<Longrightarrow> map_of (snd (dedupItem SI it rm)) k = map_of rm k"
proof (cases it)
  case (ImportDeclaration specs src)
  assume "k \<notin> set (boundByItem it)"
  with ImportDeclaration have "k \<notin> specLocal ` set specs" by simp
  from dedupSpecifiers_other [OF this] ImportDeclaration show ?thesis
    by (simp only: dedupItem_snd_import split: if_splits) simp
qed simp_all

lemma dedupItems_snd_other:
  "k \<notin> set (boundNames P) \<Longrightarrow> map_of (snd (dedupItems SI P rm)) k = map_of rm k"
proof (induction P arbitrary: rm)
  case Nil
  then show ?case by simp
next
  case (Cons it P)
  then have "k \<notin> set (boundByItem it)" "k \<notin> set (boundNames P)"
    by (simp_all add: boundNames_def)
  with Cons.IH [of "snd (dedupItem SI it rm)"] dedupItem_snd_other [of k it SI rm]
  show ?case by (simp add: case_prod_beta)
qed

lemma findInPrimary_Some:
  assumes "findInPrimary s imps = Some m"
  shows "sameImportedSymbol s m \<and> (\<exists>imp \<in> set imps. m \<in> set (snd imp))"
proof -
  from assms obtain i where "i < length (concat (map snd imps))"
    and "sameImportedSymbol s (concat (map snd imps) ! i)" and "m = concat (map snd imps) ! i"
    unfolding findInPrimary_def find_Some_iff by blast
  then have same: "sameImportedSymbol s m" and "m \<in> set (concat (map snd imps))"
    by (simp_all only: nth_mem)
  then have "\<exists>imp \<in> set imps. m \<in> set (snd imp)" by auto
  with same show ?thesis by simp
qed

lemma findInPrimary_None:
  "findInPrimary s imps = None \<longleftrightarrow>
     \<not> (\<exists>imp \<in> set imps. \<exists>m \<in> set (snd imp). sameImportedSymbol s m)"
  by (auto simp: findInPrimary_def find_None_iff)

lemma dedupItems_entry:
  assumes "distinct (boundNames P)" and "ImportDeclaration specs src \<in> set P"
    and "isExternalSource src" and "spec \<in> set specs"
    and "findInPrimary spec (filter (\<lambda>imp. fst imp = src) SI) = Some m"
    and "specLocal m \<noteq> specLocal spec"
  shows "map_of (snd (dedupItems SI P rm)) (specLocal spec) = Some (specLocal m)"
  using assms(1,2)
proof (induction P arbitrary: rm)
  case Nil
  then show ?case by simp
next
  case (Cons it P)
  have nonempty: "filter (\<lambda>imp. fst imp = src) SI \<noteq> []"
    using assms(5) by (auto simp: findInPrimary_def)
  show ?case
  proof (cases "it = ImportDeclaration specs src")
    case True
    with Cons.prems(1) assms(4) have "distinct (map specLocal specs)"
      and "specLocal spec \<notin> set (boundNames P)"
      by (auto simp: boundNames_def)
    from dedupItems_snd_other [OF this(2)]
      dedupSpecifiers_entry [OF this(1) assms(4) assms(5) assms(6)] True assms(3) nonempty
    show ?thesis by (simp add: case_prod_beta Let_def)
  next
    case False
    with Cons.prems have "ImportDeclaration specs src \<in> set P" "distinct (boundNames P)"
      by (auto simp: boundNames_def)
    from Cons.IH [OF this(2) this(1)] show ?thesis by (simp add: case_prod_beta)
  qed
qed

lemma dedupItems_kept_specifiers:
  assumes "ImportDeclaration specs' src \<in> set (fst (dedupItems SI P rm))"
    and "isExternalSource src" and "filter (\<lambda>imp. fst imp = src) SI \<noteq> []"
  shows "\<forall>s \<in> set specs'. findInPrimary s (filter (\<lambda>imp. fst imp = src) SI) = None"
proof -
  from assms(1) obtain it where it: "it \<in> set P"
    and mem: "ImportDeclaration specs' src \<in> set (fst (dedupItem SI it []))"
    unfolding dedupItems_fst by auto
  show ?thesis
  proof (cases it)
    case (ImportDeclaration specs0 src0)
    let ?keep = "filter (\<lambda>s. findInPrimary s (filter (\<lambda>imp. fst imp = src0) SI) = None) specs0"
    from mem ImportDeclaration have src0: "src0 = src"
      by (auto simp: dedupItem_fst_import simp del: dedupItem.simps(1) split: if_splits)
    from mem ImportDeclaration assms(2,3) src0
    consider "specs' = rebuildImport ?keep [] []"
      | "specs' = specs0" "\<not> length ?keep < length specs0"
      by (auto simp: dedupItem_fst_import simp del: dedupItem.simps(1) split: if_splits)
    then have "set specs' = set ?keep"
    proof cases
      case 1
      then show ?thesis by (simp only: set_rebuildImport)
    next
      case 2
      have "findInPrimary x (filter (\<lambda>imp. fst imp = src0) SI) = None" if "x \<in> set specs0" for x
      proof (rule ccontr)
        assume "findInPrimary x (filter (\<lambda>imp. fst imp = src0) SI) \<noteq> None"
        from length_filter_less [OF that, of "\<lambda>s. findInPrimary s (filter (\<lambda>imp. fst imp = src0) SI) = None"]
          this 2(2) show False by simp
      qed
      with 2 show ?thesis by simp
    qed
    with src0 show ?thesis by auto
  qed (use mem in auto)
qed


lemma identifiers_primaryWithoutSharedImports:
  "identifiers (primaryWithoutSharedImports primaryCode sharedCode sharedFileName)
     = map (renamed (externalRenameMap primaryCode sharedCode))
         (identifiers (removeSharedImportsAndRewriteRefs
            (primaryCodeDeduped primaryCode sharedCode) sharedFileName
            (sharedExportToLocal primaryCode sharedCode)))"
  by (simp add: primaryWithoutSharedImports_def Let_def identifiers_renameIdentifiers renamed_Nil)

text \<open>
  C5.  Let the primary chunk be a valid module (it binds no name twice), and let
  \<open>spec\<close> be a specifier of one of its imports from an external source, such that the
  shared chunk has an import from the same source with a specifier of the same imported
  symbol (the same imported name for named specifiers).  Then
  \<^item> no import from that source in the deduplicated primary code has \<open>spec\<close>: the
    primary's copy is removed;
  \<^item> the first such specifier \<open>m\<close> of the shared chunk is found, and when its local
    alias differs from the primary's, the rename from the primary's alias to \<open>m\<close>'s
    alias is recorded;
  \<^item> the primary code of the merge is the code without the shared imports with every
    identifier renamed by the recorded renames;
  \<^item> the import statement of \<open>spec\<close> is removed when all its specifiers are
    duplicated, and otherwise rebuilt from exactly the specifiers that are not.
\<close>

theorem duplicate_external_import:
  assumes "distinct (boundNames primaryCode)"
    and "ImportDeclaration specs source \<in> set primaryCode" and "isExternalSource source"
    and "spec \<in> set specs"
    and "(source, sharedSpecs) \<in> set (extractExternalImports sharedCode)"
    and "sharedSpec \<in> set sharedSpecs" and "sameImportedSymbol spec sharedSpec"
  shows "(\<forall>specs'. ImportDeclaration specs' source
              \<in> set (primaryCodeDeduped primaryCode sharedCode) \<longrightarrow> spec \<notin> set specs')
       \<and> (\<exists>m. findInPrimary spec
                 (filter (\<lambda>imp. fst imp = source) (extractExternalImports sharedCode)) = Some m
              \<and> sameImportedSymbol spec m
              \<and> (\<exists>imp \<in> set (extractExternalImports sharedCode).
                    fst imp = source \<and> m \<in> set (snd imp))
              \<and> (specLocal m \<noteq> specLocal spec \<longrightarrow>
                    map_of (externalRenameMap primaryCode sharedCode) (specLocal spec)
                      = Some (specLocal m)))
       \<and> identifiers (primaryWithoutSharedImports primaryCode sharedCode sharedFileName)
           = map (renamed (externalRenameMap primaryCode sharedCode))
               (identifiers (removeSharedImportsAndRewriteRefs
                  (primaryCodeDeduped primaryCode sharedCode) sharedFileName
                  (sharedExportToLocal primaryCode sharedCode)))
       \<and> primaryCodeDeduped primaryCode sharedCode
           = concat (map (\<lambda>node. fst (dedupItem (extractExternalImports sharedCode) node []))
               primaryCode)
       \<and> fst (dedupItem (extractExternalImports sharedCode) (ImportDeclaration specs source) [])
           = (if filter (\<lambda>s. \<not> (\<exists>imp \<in> set (extractExternalImports sharedCode). fst imp = source
                              \<and> (\<exists>m \<in> set (snd imp). sameImportedSymbol s m))) specs = []
              then []
              else [ImportDeclaration
                      (rebuildImport
                         (filter (\<lambda>s. \<not> (\<exists>imp \<in> set (extractExternalImports sharedCode).
                                   fst imp = source
                                   \<and> (\<exists>m \<in> set (snd imp). sameImportedSymbol s m))) specs)
                         [] []) source])
       \<and> mset (rebuildImport
             (filter (\<lambda>s. \<not> (\<exists>imp \<in> set (extractExternalImports sharedCode). fst imp = source
                              \<and> (\<exists>m \<in> set (snd imp). sameImportedSymbol s m))) specs) [] [])
           = mset (filter (\<lambda>s. \<not> (\<exists>imp \<in> set (extractExternalImports sharedCode).
                              fst imp = source
                              \<and> (\<exists>m \<in> set (snd imp). sameImportedSymbol s m))) specs)"
proof -
  let ?SI = "extractExternalImports sharedCode"
  let ?forSource = "filter (\<lambda>imp. fst imp = source) ?SI"
  let ?dup = "\<lambda>s. \<exists>imp \<in> set ?SI. fst imp = source \<and> (\<exists>m \<in> set (snd imp). sameImportedSymbol s m)"
  have none_iff: "findInPrimary s ?forSource = None \<longleftrightarrow> \<not> ?dup s" for s
    unfolding findInPrimary_None by auto
  have nonempty: "?forSource \<noteq> []"
    using assms(5) by (force simp: filter_empty_conv)
  have dup: "?dup spec" using assms(5,6,7) by force
  then obtain m where m: "findInPrimary spec ?forSource = Some m"
    using none_iff [of spec] by auto
  from findInPrimary_Some [OF m]
  have m_same: "sameImportedSymbol spec m"
    and m_shared: "\<exists>imp \<in> set ?SI. fst imp = source \<and> m \<in> set (snd imp)" by force+
  have removed: "\<forall>specs'. ImportDeclaration specs' source
      \<in> set (primaryCodeDeduped primaryCode sharedCode) \<longrightarrow> spec \<notin> set specs'"
  proof (intro allI impI)
    fix specs'
    assume "ImportDeclaration specs' source \<in> set (primaryCodeDeduped primaryCode sharedCode)"
    then have "ImportDeclaration specs' source \<in> set (fst (dedupItems ?SI primaryCode []))"
      by (simp add: primaryCodeDeduped_def removeOrRewriteDuplicateExternalImports_def)
    from dedupItems_kept_specifiers [OF this assms(3) nonempty] m
    show "spec \<notin> set specs'" by auto
  qed
  have entry: "specLocal m \<noteq> specLocal spec \<longrightarrow>
      map_of (externalRenameMap primaryCode sharedCode) (specLocal spec) = Some (specLocal m)"
    using dedupItems_entry [OF assms(1) assms(2) assms(3) assms(4) m]
    by (simp add: externalRenameMap_def removeOrRewriteDuplicateExternalImports_def)
  have deduped: "primaryCodeDeduped primaryCode sharedCode
      = concat (map (\<lambda>node. fst (dedupItem ?SI node [])) primaryCode)"
    by (simp add: primaryCodeDeduped_def removeOrRewriteDuplicateExternalImports_def
        dedupItems_fst)
  have keep: "filter (\<lambda>s. findInPrimary s ?forSource = None) specs = filter (\<lambda>s. \<not> ?dup s) specs"
    by (rule filter_cong) (simp_all only: none_iff)
  have shorter: "length (filter (\<lambda>s. \<not> ?dup s) specs) < length specs"
    using length_filter_less [OF assms(4), of "\<lambda>s. \<not> ?dup s"] dup by simp
  have rebuilt: "fst (dedupItem ?SI (ImportDeclaration specs source) [])
      = (if filter (\<lambda>s. \<not> ?dup s) specs = [] then []
         else [ImportDeclaration (rebuildImport (filter (\<lambda>s. \<not> ?dup s) specs) [] []) source])"
    unfolding dedupItem_fst_import keep using assms(3) nonempty shorter by simp
  have exactly: "mset (rebuildImport (filter (\<lambda>s. \<not> ?dup s) specs) [] [])
      = mset (filter (\<lambda>s. \<not> ?dup s) specs)"
    by (simp add: mset_rebuildImport)
  from removed m m_same m_shared entry identifiers_primaryWithoutSharedImports deduped rebuilt exactly
  show ?thesis by blast
qed


text \<open>The definitions that evaluate a merge on concrete chunks.\<close>

lemmas merge_eval =
  primaryCodeDeduped_def removeOrRewriteDuplicateExternalImports_def extractExternalImports_def
  isExternalSource_def findInPrimary_def externalRenameMap_def primaryWithoutSharedImports_def
  removeSharedImportsAndRewriteRefs_def isSharedChunkSource_def SHARED_CHUNK_NAME_def
  stripJsExtension_def endsWith_def sharedExportToLocal_def extractExports_def
  collisionRenameMap_def buildCollisionRenameMap_def extractTopLevelDeclarations_def
  extractExternalImportBindings_def setAdd_def getOr_def renameIdentifiers_def renamed_def
  lookupRename_def rewriteName_def boundNames_def processedSharedCode_def stripExports_def
  mergeSharedIntoPrimary_def mergedSharedExportEntries_def sharedExportEntries_def
  sharedObjectStatements_def

theorem duplicate_external_import_witness:
  "map_of (externalRenameMap dupePrimary dupeShared) ''cp'' = Some ''createPlugin''
   \<and> primaryCodeDeduped dupePrimary dupeShared
       = [ImportDeclaration [ImportSpecifier ''other'' ''other''] ''externalLib'',
          ImportDeclaration [ImportSpecifier ''sharedHelper'' ''sharedHelper''] ''./__shared__.js'',
          ExportNamedDeclaration
            (Some (FunctionDeclaration ''main'' []
               [ReturnStatement (CallExpression (Identifier ''cp'')
                  [Identifier ''other'', CallExpression (Identifier ''sharedHelper'') []])]))
            [] None]
   \<and> primaryWithoutSharedImports dupePrimary dupeShared ''__shared__.js''
       = [ImportDeclaration [ImportSpecifier ''other'' ''other''] ''externalLib'',
          ExportNamedDeclaration
            (Some (FunctionDeclaration ''main'' []
               [ReturnStatement (CallExpression (Identifier ''createPlugin'')
                  [Identifier ''other'', CallExpression (Identifier ''sharedHelper'') []])]))
            [] None]"
proof -
  have h1: "distinct (boundNames dupePrimary)"
    by (simp add: dupePrimary_def boundNames_def)
  have h2: "ImportDeclaration
        [ImportSpecifier ''createPlugin'' ''cp'', ImportSpecifier ''other'' ''other'']
        ''externalLib'' \<in> set dupePrimary"
    by (simp add: dupePrimary_def)
  have h3: "isExternalSource ''externalLib''" by (simp add: isExternalSource_def)
  have h4: "ImportSpecifier ''createPlugin'' ''cp''
      \<in> set [ImportSpecifier ''createPlugin'' ''cp'', ImportSpecifier ''other'' ''other'']"
    by simp
  have h5: "(''externalLib'', [ImportSpecifier ''createPlugin'' ''createPlugin''])
      \<in> set (extractExternalImports dupeShared)"
    by (simp add: dupeShared_def extractExternalImports_def isExternalSource_def)
  have h6: "ImportSpecifier ''createPlugin'' ''createPlugin''
      \<in> set [ImportSpecifier ''createPlugin'' ''createPlugin'']" by simp
  have h7: "sameImportedSymbol (ImportSpecifier ''createPlugin'' ''cp'')
      (ImportSpecifier ''createPlugin'' ''createPlugin'')" by simp
  from duplicate_external_import [OF h1 h2 h3 h4 h5 h6 h7, of "''__shared__.js''"]
  have "primaryCodeDeduped dupePrimary dupeShared
      = concat (map (\<lambda>node. fst (dedupItem (extractExternalImports dupeShared) node []))
          dupePrimary)"
    by blast
  then have deduped: "primaryCodeDeduped dupePrimary dupeShared
       = [ImportDeclaration [ImportSpecifier ''other'' ''other''] ''externalLib'',
          ImportDeclaration [ImportSpecifier ''sharedHelper'' ''sharedHelper''] ''./__shared__.js'',
          ExportNamedDeclaration
            (Some (FunctionDeclaration ''main'' []
               [ReturnStatement (CallExpression (Identifier ''cp'')
                  [Identifier ''other'', CallExpression (Identifier ''sharedHelper'') []])]))
            [] None]"
    by (simp add: dupePrimary_def dupeShared_def extractExternalImports_def isExternalSource_def
        findInPrimary_def)
  have rename: "externalRenameMap dupePrimary dupeShared = [(''cp'', ''createPlugin'')]"
    by (simp add: dupePrimary_def dupeShared_def merge_eval)
  have final: "primaryWithoutSharedImports dupePrimary dupeShared ''__shared__.js''
       = [ImportDeclaration [ImportSpecifier ''other'' ''other''] ''externalLib'',
          ExportNamedDeclaration
            (Some (FunctionDeclaration ''main'' []
               [ReturnStatement (CallExpression (Identifier ''createPlugin'')
                  [Identifier ''other'', CallExpression (Identifier ''sharedHelper'') []])]))
            [] None]"
    unfolding primaryWithoutSharedImports_def rename deduped
    by (simp add: dupePrimary_def dupeShared_def merge_eval)
  from deduped rename final show ?thesis by simp
qed

section \<open>The bound names of the merged chunk\<close>

subsection \<open>The shared code\<close>














subsection \<open>The primary code\<close>

























subsection \<open>What the collision resolver sees\<close>







subsection \<open>Freedom from collisions\<close>







section \<open>Substring matching decides what counts as the shared chunk\<close>



section \<open>A missing global name\<close>










section \<open>The build instance on the exit paths\<close>

lemma convertToIife_success_closed:
  "fst (convertToIife engine opts) = Inr r \<Longrightarrow> snd (convertToIife engine opts) = Some Closed"
  by (auto simp: convertToIife_def Let_def split: option.splits sum.splits)

lemma convertToIife_generate_rejects_open:
  "rollupRejects engine = None \<Longrightarrow> generate engine (rollupGlobals opts) = Inl e \<Longrightarrow>
     convertToIife engine opts = (Inl e, Some Open)"
  by (simp add: convertToIife_def Let_def)

text \<open>
  C9.  The claim is that every call of \<open>convertToIife\<close> has closed the build instance
  it created when its promise settles.  The primary chunk below imports \<open>lodash\<close>,
  no global is configured for it and \<open>skipRequireGlobals\<close> is unset: the globals
  function throws inside \<open>bundle.generate\<close>, the promise is rejected with that error,
  and the instance is still open.
\<close>

theorem convertToIife_leaves_bundle_open:
  "convertToIife
     \<lparr>rollupRejects = None, externalIds = [''lodash''], generateRejects = None,
      outputCode = [], stripNamespaceGuards = (\<lambda>wrapper. wrapper)\<rparr>
     \<lparr>esmCode = [ImportDeclaration [ImportDefaultSpecifier ''lodash''] ''lodash'',
                 Statement (ExpressionStatement
                   (CallExpression (MemberExpression (Identifier ''lodash'') ''noop'') []))],
      globalName = Some ''MyLib'', globals = [], sharedGlobalPath = None,
      sharedChunkFileName = None, skipRequireGlobals = None\<rparr>
   = (Inl (Error (missingGlobalMessage ''lodash'')), Some Open)"
  by (simp add: convertToIife_def generate_def rollupGlobals_def ownGlobal_def sharedImport_def)

end
